theory Spec2Isabelle
  imports Main "HOL-Library.Char_ord" "HOL-Library.List_Lexorder" "HOL-Library.Multiset"
begin

section \<open>NexoraCrew finance API: data model\<close>

text \<open>
  The three Mongoose schemas of \<^verbatim>\<open>index.js\<close>. Field names carry a prefix
  (\<open>u_\<close>, \<open>t_\<close>, \<open>b_\<close>) because several schemas share names such as \<open>userId\<close>,
  \<open>bankName\<close> and \<open>createdAt\<close>. A schema path that may be absent from a stored document
  is an \<open>option\<close>; a path with \<^verbatim>\<open>required\<close> or a \<^verbatim>\<open>default\<close> is always present.
  Identifiers (\<^verbatim>\<open>_id\<close>) are kept in their string form. \<^verbatim>\<open>Date\<close> values are
  milliseconds since the epoch. \<^verbatim>\<open>Number\<close> values are only stored and returned, never
  computed with, and are kept as integers.
\<close>

record user =
  u_id :: string
  u_name :: string
  u_email :: string
  u_passwordHash :: string
  u_position :: string
  u_createdAt :: nat

record transaction =
  t_id :: string
  t_userId :: string
  t_userName :: string
  t_date :: string
  t_type :: string
  t_category :: string
  t_amount :: int
  t_paymentMethod :: string
  t_bankAccountId :: "string option"
  t_bankName :: "string option"
  t_description :: string
  t_attachment :: "string option"
  t_investmentType :: string
  t_investors :: "string list option"
  t_createdAt :: string

record bank =
  b_id :: string
  b_userId :: string
  b_bankName :: string
  b_holderName :: string
  b_cardNumber :: string
  b_expiryDate :: string
  b_cardType :: string

text \<open>The database: one collection per model, in insertion order.\<close>

record db =
  users :: "user list"
  transactions :: "transaction list"
  banks :: "bank list"

text \<open>
  Request bodies. \<^verbatim>\<open>express.json()\<close> yields an object in which any property may be
  missing, so every property of a transaction or bank body is optional; the same body type
  serves \<^verbatim>\<open>POST\<close> (all fields) and \<^verbatim>\<open>PUT\<close> (partial fields). The password of
  a login body is \<open>None\<close> when the body has no \<^verbatim>\<open>password\<close> or one that is not a
  string.
\<close>

record txBody =
  x_userId :: "string option"
  x_userName :: "string option"
  x_date :: "string option"
  x_type :: "string option"
  x_category :: "string option"
  x_amount :: "int option"
  x_paymentMethod :: "string option"
  x_bankAccountId :: "string option"
  x_bankName :: "string option"
  x_description :: "string option"
  x_attachment :: "string option"
  x_investmentType :: "string option"
  x_investors :: "string list option"
  x_createdAt :: "string option"

record bankBody =
  y_userId :: "string option"
  y_bankName :: "string option"
  y_holderName :: "string option"
  y_cardNumber :: "string option"
  y_expiryDate :: "string option"
  y_cardType :: "string option"


record loginBody =
  l_email :: string
  l_password :: "string option"

text \<open>
  The decoded token payload that \<^verbatim>\<open>auth\<close> stores in \<^verbatim>\<open>req.user\<close>:
  \<^verbatim>\<open>{ id, name, email }\<close> plus the issued-at and expiry times (in seconds).
\<close>

record claims =
  c_id :: string
  c_name :: string
  c_email :: string
  c_iat :: nat
  c_exp :: nat

subsection \<open>JavaScript values and responses\<close>

text \<open>
  The values handed to \<^verbatim>\<open>res.json\<close>. An object is the list of its properties in
  the order the source writes them; \<open>JUndefined\<close> is the value of a property whose source
  expression is \<^verbatim>\<open>undefined\<close>.
\<close>

datatype jsval =
    JUndefined
  | JBool bool
  | JNum int
  | JStr string
  | JArr "jsval list"
  | JObj "(string \<times> jsval) list"

text \<open>
  A response is a status with a body, or \<open>Unhandled\<close> when the handler's promise rejects
  and no \<^verbatim>\<open>catch\<close> of the source produces a response.
\<close>

datatype response = Json nat jsval | Unhandled


fun lookup :: "string \<Rightarrow> jsval \<Rightarrow> jsval" where
  "lookup k (JObj kvs) = (case map_of kvs k of None \<Rightarrow> JUndefined | Some v \<Rightarrow> v)"
| "lookup k v = JUndefined"

definition opt_str :: "string option \<Rightarrow> jsval" where
  "opt_str v = (case v of None \<Rightarrow> JUndefined | Some s \<Rightarrow> JStr s)"

definition json_error :: "string \<Rightarrow> jsval" where
  "json_error msg = JObj [(''error'', JStr msg)]"

definition json_success :: jsval where
  "json_success = JObj [(''success'', JBool True)]"

subsection \<open>External collaborators\<close>

text \<open>
  What the process takes from its environment and its libraries: the signing secret
  (\<^verbatim>\<open>process.env.JWT_SECRET\<close>), the token library's signature function and wire
  format, the password hasher, \<^verbatim>\<open>Date.prototype.toISOString\<close>, the message text
  of a schema validation error, and the driver's cast of a string to an \<^verbatim>\<open>ObjectId\<close>.
  They are parameters of the model. No schema declares an \<^verbatim>\<open>_id\<close> path, so
  \<^verbatim>\<open>_id\<close> is an \<^verbatim>\<open>ObjectId\<close>: \<open>castObjectId\<close> yields the string form of the
  identifier that a string in a filter on \<^verbatim>\<open>_id\<close> denotes, or \<open>None\<close> when the cast
  fails and the query rejects.
\<close>

record env =
  JWT_SECRET :: string
  jwt_mac :: "string \<Rightarrow> claims \<Rightarrow> string"
  jwt_encode :: "claims \<Rightarrow> string \<Rightarrow> string"
  jwt_decode :: "string \<Rightarrow> (claims \<times> string) option"
  bcrypt_hash :: "string \<Rightarrow> string"
  bcrypt_compare :: "string \<Rightarrow> string \<Rightarrow> bool"
  toISOString :: "nat \<Rightarrow> string"
  validation_message :: "string list \<Rightarrow> string"
  castObjectId :: "string \<Rightarrow> string option"

text \<open>
  Modelled from the spec: the token library (\<^verbatim>\<open>jsonwebtoken\<close>) is not part of the
  source file. Issuing encodes the identity with the issued-at time and an expiry that lies
  the given number of seconds after it, and signs the result with the secret. Verifying
  fails when the token is malformed (it does not decode), when its signature does not match
  the secret, or when its expiry has passed; otherwise it yields the embedded identity.
  The clock is read in milliseconds and the token's times are in seconds.
\<close>

definition seven_days :: nat where
  "seven_days = 7 * 24 * 60 * 60"

definition jwt_claims :: "nat \<Rightarrow> string \<Rightarrow> string \<Rightarrow> string \<Rightarrow> nat \<Rightarrow> claims" where
  "jwt_claims now ident nm mail expiresIn =
     \<lparr>c_id = ident, c_name = nm, c_email = mail,
      c_iat = now div 1000, c_exp = now div 1000 + expiresIn\<rparr>"

definition jwt_sign :: "env \<Rightarrow> nat \<Rightarrow> string \<Rightarrow> string \<Rightarrow> string \<Rightarrow> nat \<Rightarrow> string" where
  "jwt_sign E now ident nm mail expiresIn =
     (let c = jwt_claims now ident nm mail expiresIn
      in jwt_encode E c (jwt_mac E (JWT_SECRET E) c))"


definition bad_signature :: "env \<Rightarrow> string \<Rightarrow> bool" where
  "bad_signature E tok =
     (case jwt_decode E tok of None \<Rightarrow> False
      | Some (c, sg) \<Rightarrow> sg \<noteq> jwt_mac E (JWT_SECRET E) c)"


definition jwt_verify :: "env \<Rightarrow> nat \<Rightarrow> string \<Rightarrow> claims option" where
  "jwt_verify E now tok =
     (case jwt_decode E tok of
        None \<Rightarrow> None
      | Some (c, sg) \<Rightarrow>
          if sg \<noteq> jwt_mac E (JWT_SECRET E) c then None
          else if c_exp c \<le> now div 1000 then None
          else Some c)"

text \<open>
  Modelled from the spec: the document store (Mongoose over MongoDB) is not part of the
  source file. A collection is a list of documents; a query is a predicate on documents.
  \<open>findMany\<close> returns the matching documents, \<open>findOne\<close> the first of them,
  \<open>updateOne\<close> and \<open>deleteOne\<close> act on the first matching document only,
  \<open>updateMany\<close> and \<open>deleteMany\<close> on every matching document, and \<open>create\<close>
  appends. A descending sort orders strings by their bytes.
\<close>

definition findMany :: "('d \<Rightarrow> bool) \<Rightarrow> 'd list \<Rightarrow> 'd list" where
  "findMany q ds = filter q ds"

definition findOne :: "('d \<Rightarrow> bool) \<Rightarrow> 'd list \<Rightarrow> 'd option" where
  "findOne q ds = find q ds"

fun updateOne :: "('d \<Rightarrow> bool) \<Rightarrow> ('d \<Rightarrow> 'd) \<Rightarrow> 'd list \<Rightarrow> 'd list" where
  "updateOne q f [] = []"
| "updateOne q f (d # ds) = (if q d then f d # ds else d # updateOne q f ds)"

definition updateMany :: "('d \<Rightarrow> bool) \<Rightarrow> ('d \<Rightarrow> 'd) \<Rightarrow> 'd list \<Rightarrow> 'd list" where
  "updateMany q f ds = map (\<lambda>d. if q d then f d else d) ds"

fun deleteOne :: "('d \<Rightarrow> bool) \<Rightarrow> 'd list \<Rightarrow> 'd list" where
  "deleteOne q [] = []"
| "deleteOne q (d # ds) = (if q d then ds else d # deleteOne q ds)"

definition deleteMany :: "('d \<Rightarrow> bool) \<Rightarrow> 'd list \<Rightarrow> 'd list" where
  "deleteMany q ds = filter (\<lambda>d. \<not> q d) ds"

definition create :: "'d \<Rightarrow> 'd list \<Rightarrow> 'd list" where
  "create d ds = ds @ [d]"

definition sort_desc :: "('d \<Rightarrow> 'k::linorder) \<Rightarrow> 'd list \<Rightarrow> 'd list" where
  "sort_desc key ds = rev (sort_key key ds)"

section \<open>Helpers\<close>

definition createToken :: "env \<Rightarrow> nat \<Rightarrow> user \<Rightarrow> string" where
  "createToken E now u = jwt_sign E now (u_id u) (u_name u) (u_email u) seven_days"

definition sanitizeUser :: "env \<Rightarrow> user \<Rightarrow> jsval" where
  "sanitizeUser E u = JObj
     [(''id'', JStr (u_id u)),
      (''name'', JStr (u_name u)),
      (''email'', JStr (u_email u)),
      (''position'', JStr (u_position u)),
      (''createdAt'', JStr (toISOString E (u_createdAt u)))]"

definition mapTransaction :: "transaction \<Rightarrow> jsval" where
  "mapTransaction t = JObj
     [(''id'', JStr (t_id t)),
      (''userId'', JStr (t_userId t)),
      (''userName'', JStr (t_userName t)),
      (''date'', JStr (t_date t)),
      (''type'', JStr (t_type t)),
      (''category'', JStr (t_category t)),
      (''amount'', JNum (t_amount t)),
      (''paymentMethod'', JStr (t_paymentMethod t)),
      (''bankAccountId'', opt_str (t_bankAccountId t)),
      (''bankName'', opt_str (t_bankName t)),
      (''description'', JStr (t_description t)),
      (''attachment'', opt_str (t_attachment t)),
      (''investmentType'', JStr (t_investmentType t)),
      (''investors'', JArr (map JStr (case t_investors t of None \<Rightarrow> [] | Some xs \<Rightarrow> xs))),
      (''createdAt'', JStr (t_createdAt t))]"

definition mapBank :: "bank \<Rightarrow> jsval" where
  "mapBank b = JObj
     [(''id'', JStr (b_id b)),
      (''userId'', JStr (b_userId b)),
      (''bankName'', JStr (b_bankName b)),
      (''holderName'', JStr (b_holderName b)),
      (''cardNumber'', JStr (b_cardNumber b)),
      (''expiryDate'', JStr (b_expiryDate b)),
      (''cardType'', JStr (b_cardType b))]"

section \<open>Authentication middleware\<close>

text \<open>
  \<^verbatim>\<open>auth\<close> either answers the request itself (\<open>Inl\<close>) or calls \<^verbatim>\<open>next()\<close> with the
  payload in \<^verbatim>\<open>req.user\<close> (\<open>Inr\<close>). The header is \<open>None\<close> when the request has no
  \<^verbatim>\<open>Authorization\<close> field; \<^verbatim>\<open>startsWith('Bearer ')\<close> compares the first seven
  characters and \<^verbatim>\<open>slice(7)\<close> drops them; the empty string is falsy, as \<^verbatim>\<open>null\<close> is.
\<close>

definition startsWith :: "string \<Rightarrow> string \<Rightarrow> bool" where
  "startsWith p h = (take (length p) h = p)"

definition bearer_token :: "string option \<Rightarrow> string option" where
  "bearer_token authorization =
     (let header = (case authorization of None \<Rightarrow> [] | Some h \<Rightarrow> h)
      in if startsWith ''Bearer '' header then Some (drop 7 header) else None)"

definition auth :: "env \<Rightarrow> nat \<Rightarrow> string option \<Rightarrow> response + claims" where
  "auth E now authorization =
     (case bearer_token authorization of
        None \<Rightarrow> Inl (Json 401 (json_error ''No token''))
      | Some token \<Rightarrow>
          if token = [] then Inl (Json 401 (json_error ''No token''))
          else (case jwt_verify E now token of
                  Some payload \<Rightarrow> Inr payload
                | None \<Rightarrow> Inl (Json 401 (json_error ''Invalid token''))))"

text \<open>
  A route registered with the \<^verbatim>\<open>auth\<close> middleware: the handler runs only when
  \<^verbatim>\<open>auth\<close> calls \<^verbatim>\<open>next()\<close>, with the payload as the caller.
\<close>

definition protected ::
  "env \<Rightarrow> nat \<Rightarrow> string option \<Rightarrow> (claims \<Rightarrow> db \<Rightarrow> db \<times> response) \<Rightarrow> db \<Rightarrow> db \<times> response" where
  "protected E now authorization handler s =
     (case auth E now authorization of
        Inl r \<Rightarrow> (s, r)
      | Inr caller \<Rightarrow> handler caller s)"


section \<open>Schema validation and defaults\<close>

text \<open>
  What the schemas declare and \<^verbatim>\<open>Model.create\<close> enforces: a \<^verbatim>\<open>required\<close> string
  path must be present and not empty, a path with an \<^verbatim>\<open>enum\<close> must hold one of the
  listed values when present, and a path with a \<^verbatim>\<open>default\<close> receives it when absent.
  Updates (\<^verbatim>\<open>$set\<close>) run no validators.
\<close>

definition required_str :: "string option \<Rightarrow> bool" where
  "required_str v = (case v of None \<Rightarrow> False | Some s \<Rightarrow> s \<noteq> [])"

definition enum_ok :: "string list \<Rightarrow> string option \<Rightarrow> bool" where
  "enum_ok vals v = (case v of None \<Rightarrow> True | Some s \<Rightarrow> s \<in> set vals)"

definition dflt :: "'a \<Rightarrow> 'a option \<Rightarrow> 'a" where
  "dflt d v = (case v of None \<Rightarrow> d | Some a \<Rightarrow> a)"

definition keep :: "'a option \<Rightarrow> 'a option \<Rightarrow> 'a option" where
  "keep old v = (case v of None \<Rightarrow> old | Some a \<Rightarrow> Some a)"

definition validate_tx :: "txBody \<Rightarrow> bool" where
  "validate_tx x =
     (required_str (x_userId x) \<and> required_str (x_userName x) \<and> required_str (x_date x) \<and>
      required_str (x_type x) \<and> enum_ok [''INCOME'', ''EXPENSE''] (x_type x) \<and>
      required_str (x_category x) \<and> x_amount x \<noteq> None \<and> required_str (x_paymentMethod x) \<and>
      enum_ok [''SINGLE'', ''TEAM''] (x_investmentType x))"

definition Transaction_create :: "env \<Rightarrow> nat \<Rightarrow> string \<Rightarrow> txBody \<Rightarrow> transaction option" where
  "Transaction_create E now newId x =
     (if \<not> validate_tx x then None
      else Some \<lparr>t_id = newId,
                 t_userId = dflt [] (x_userId x),
                 t_userName = dflt [] (x_userName x),
                 t_date = dflt [] (x_date x),
                 t_type = dflt [] (x_type x),
                 t_category = dflt [] (x_category x),
                 t_amount = dflt 0 (x_amount x),
                 t_paymentMethod = dflt [] (x_paymentMethod x),
                 t_bankAccountId = x_bankAccountId x,
                 t_bankName = x_bankName x,
                 t_description = dflt [] (x_description x),
                 t_attachment = x_attachment x,
                 t_investmentType = dflt ''SINGLE'' (x_investmentType x),
                 t_investors = Some (dflt [] (x_investors x)),
                 t_createdAt = dflt (toISOString E now) (x_createdAt x)\<rparr>)"

definition validate_bank :: "bankBody \<Rightarrow> bool" where
  "validate_bank y =
     (required_str (y_userId y) \<and> required_str (y_bankName y) \<and> required_str (y_holderName y) \<and>
      required_str (y_cardNumber y) \<and> required_str (y_expiryDate y) \<and>
      required_str (y_cardType y) \<and> enum_ok [''DEBIT'', ''CREDIT''] (y_cardType y))"

definition Bank_create :: "string \<Rightarrow> bankBody \<Rightarrow> bank option" where
  "Bank_create newId y =
     (if \<not> validate_bank y then None
      else Some \<lparr>b_id = newId,
                 b_userId = dflt [] (y_userId y),
                 b_bankName = dflt [] (y_bankName y),
                 b_holderName = dflt [] (y_holderName y),
                 b_cardNumber = dflt [] (y_cardNumber y),
                 b_expiryDate = dflt [] (y_expiryDate y),
                 b_cardType = dflt [] (y_cardType y)\<rparr>)"


text \<open>\<^verbatim>\<open>{ $set: req.body }\<close>: every property present in the body replaces the stored one.\<close>

definition set_tx :: "txBody \<Rightarrow> transaction \<Rightarrow> transaction" where
  "set_tx x t =
     \<lparr>t_id = t_id t,
      t_userId = dflt (t_userId t) (x_userId x),
      t_userName = dflt (t_userName t) (x_userName x),
      t_date = dflt (t_date t) (x_date x),
      t_type = dflt (t_type t) (x_type x),
      t_category = dflt (t_category t) (x_category x),
      t_amount = dflt (t_amount t) (x_amount x),
      t_paymentMethod = dflt (t_paymentMethod t) (x_paymentMethod x),
      t_bankAccountId = keep (t_bankAccountId t) (x_bankAccountId x),
      t_bankName = keep (t_bankName t) (x_bankName x),
      t_description = dflt (t_description t) (x_description x),
      t_attachment = keep (t_attachment t) (x_attachment x),
      t_investmentType = dflt (t_investmentType t) (x_investmentType x),
      t_investors = keep (t_investors t) (x_investors x),
      t_createdAt = dflt (t_createdAt t) (x_createdAt x)\<rparr>"

definition set_bank :: "bankBody \<Rightarrow> bank \<Rightarrow> bank" where
  "set_bank y b =
     \<lparr>b_id = b_id b,
      b_userId = dflt (b_userId b) (y_userId y),
      b_bankName = dflt (b_bankName b) (y_bankName y),
      b_holderName = dflt (b_holderName b) (y_holderName y),
      b_cardNumber = dflt (b_cardNumber b) (y_cardNumber y),
      b_expiryDate = dflt (b_expiryDate b) (y_expiryDate y),
      b_cardType = dflt (b_cardType b) (y_cardType y)\<rparr>"

section \<open>Routes\<close>

text \<open>
  One definition per route, named after its method and path. A handler takes the request's
  parameters and body, the caller (\<^verbatim>\<open>req.user\<close>, for the routes behind \<^verbatim>\<open>auth\<close>) and
  the database, and returns the database after the request with the response. The clock
  (\<^verbatim>\<open>Date.now()\<close>) and the id that the driver generates for a new document are
  parameters. In the bulk-category route a missing \<^verbatim>\<open>category\<close> sets nothing.
  The routes that filter on \<^verbatim>\<open>_id\<close> have no \<^verbatim>\<open>try\<close>: when an id of the request
  does not cast, the query rejects before it reaches the collection, the database is
  unchanged and the handler sends no response.
\<close>

subsection \<open>Registration, login, user list\<close>


text \<open>
  The login handler has no \<^verbatim>\<open>try\<close>: \<^verbatim>\<open>bcrypt.compare\<close> is reached only when a
  user has the email, and it rejects when the password is not a string, so that request
  gets no response from the handler.
\<close>

definition login :: "env \<Rightarrow> nat \<Rightarrow> loginBody \<Rightarrow> db \<Rightarrow> response" where
  "login E now body s =
     (case findOne (\<lambda>u. u_email u = l_email body) (users s) of
        None \<Rightarrow> Json 400 (json_error ''Invalid credentials'')
      | Some u \<Rightarrow>
          (case l_password body of
             None \<Rightarrow> Unhandled
           | Some password \<Rightarrow>
               if \<not> bcrypt_compare E password (u_passwordHash u)
               then Json 400 (json_error ''Invalid credentials'')
               else Json 200 (JObj [(''user'', sanitizeUser E u),
                                    (''token'', JStr (createToken E now u))])))"


subsection \<open>Transactions\<close>

definition get_transactions :: "claims \<Rightarrow> db \<Rightarrow> db \<times> response" where
  "get_transactions caller s =
     (s, Json 200 (JArr (map mapTransaction
                       (sort_desc t_date
                          (findMany (\<lambda>d. t_userId d = c_id caller) (transactions s))))))"

text \<open>
  \<^verbatim>\<open>{ ...body, userId: req.user.id, userName: req.user.name }\<close>: the properties written
  after the spread replace those of the body.
\<close>

definition spread_owner :: "txBody \<Rightarrow> claims \<Rightarrow> txBody" where
  "spread_owner body caller =
     body\<lparr>x_userId := Some (c_id caller), x_userName := Some (c_name caller)\<rparr>"

definition post_transactions ::
  "env \<Rightarrow> nat \<Rightarrow> string \<Rightarrow> txBody \<Rightarrow> claims \<Rightarrow> db \<Rightarrow> db \<times> response" where
  "post_transactions E now newId body caller s =
     (case Transaction_create E now newId (spread_owner body caller) of
        None \<Rightarrow> (s, Unhandled)
      | Some tx \<Rightarrow>
          (s\<lparr>transactions := create tx (transactions s)\<rparr>, Json 200 (mapTransaction tx)))"

definition put_transaction ::
  "env \<Rightarrow> string \<Rightarrow> txBody \<Rightarrow> claims \<Rightarrow> db \<Rightarrow> db \<times> response" where
  "put_transaction E ident body caller s =
     (case castObjectId E ident of
        None \<Rightarrow> (s, Unhandled)
      | Some oid \<Rightarrow>
          (s\<lparr>transactions :=
               updateOne (\<lambda>d. t_id d = oid \<and> t_userId d = c_id caller) (set_tx body)
                 (transactions s)\<rparr>,
           Json 200 json_success))"

definition delete_transaction :: "env \<Rightarrow> string \<Rightarrow> claims \<Rightarrow> db \<Rightarrow> db \<times> response" where
  "delete_transaction E ident caller s =
     (case castObjectId E ident of
        None \<Rightarrow> (s, Unhandled)
      | Some oid \<Rightarrow>
          (s\<lparr>transactions :=
               deleteOne (\<lambda>d. t_id d = oid \<and> t_userId d = c_id caller) (transactions s)\<rparr>,
           Json 200 json_success))"

text \<open>\<^verbatim>\<open>{ $in: ids }\<close> casts every id of the batch; one that fails rejects the query.\<close>

fun cast_all :: "env \<Rightarrow> string list \<Rightarrow> string list option" where
  "cast_all E [] = Some []"
| "cast_all E (i # ids) =
     (case castObjectId E i of
        None \<Rightarrow> None
      | Some oid \<Rightarrow> (case cast_all E ids of None \<Rightarrow> None | Some oids \<Rightarrow> Some (oid # oids)))"

definition bulk_delete :: "env \<Rightarrow> string list \<Rightarrow> claims \<Rightarrow> db \<Rightarrow> db \<times> response" where
  "bulk_delete E ids caller s =
     (case cast_all E ids of
        None \<Rightarrow> (s, Unhandled)
      | Some oids \<Rightarrow>
          (s\<lparr>transactions :=
               deleteMany (\<lambda>d. t_id d \<in> set oids \<and> t_userId d = c_id caller)
                 (transactions s)\<rparr>,
           Json 200 json_success))"

definition bulk_category ::
  "env \<Rightarrow> string list \<Rightarrow> string option \<Rightarrow> claims \<Rightarrow> db \<Rightarrow> db \<times> response" where
  "bulk_category E ids category caller s =
     (case cast_all E ids of
        None \<Rightarrow> (s, Unhandled)
      | Some oids \<Rightarrow>
          (s\<lparr>transactions :=
               updateMany (\<lambda>d. t_id d \<in> set oids \<and> t_userId d = c_id caller)
                 (\<lambda>d. d\<lparr>t_category := dflt (t_category d) category\<rparr>) (transactions s)\<rparr>,
           Json 200 json_success))"

subsection \<open>Banks\<close>

definition get_banks :: "claims \<Rightarrow> db \<Rightarrow> db \<times> response" where
  "get_banks caller s =
     (s, Json 200 (JArr (map mapBank (findMany (\<lambda>b. b_userId b = c_id caller) (banks s)))))"

text \<open>\<^verbatim>\<open>{ ...req.body, userId: req.user.id }\<close>.\<close>

definition spread_bank_owner :: "bankBody \<Rightarrow> claims \<Rightarrow> bankBody" where
  "spread_bank_owner body caller = body\<lparr>y_userId := Some (c_id caller)\<rparr>"

definition post_banks :: "string \<Rightarrow> bankBody \<Rightarrow> claims \<Rightarrow> db \<Rightarrow> db \<times> response" where
  "post_banks newId body caller s =
     (case Bank_create newId (spread_bank_owner body caller) of
        None \<Rightarrow> (s, Unhandled)
      | Some b \<Rightarrow> (s\<lparr>banks := create b (banks s)\<rparr>, Json 200 (mapBank b)))"

definition put_bank :: "env \<Rightarrow> string \<Rightarrow> bankBody \<Rightarrow> claims \<Rightarrow> db \<Rightarrow> db \<times> response" where
  "put_bank E ident body caller s =
     (case castObjectId E ident of
        None \<Rightarrow> (s, Unhandled)
      | Some oid \<Rightarrow>
          (s\<lparr>banks :=
               updateOne (\<lambda>b. b_id b = oid \<and> b_userId b = c_id caller) (set_bank body)
                 (banks s)\<rparr>,
           Json 200 json_success))"

definition delete_bank :: "env \<Rightarrow> string \<Rightarrow> claims \<Rightarrow> db \<Rightarrow> db \<times> response" where
  "delete_bank E ident caller s =
     (case castObjectId E ident of
        None \<Rightarrow> (s, Unhandled)
      | Some oid \<Rightarrow>
          (s\<lparr>banks := deleteOne (\<lambda>b. b_id b = oid \<and> b_userId b = c_id caller) (banks s)\<rparr>,
           Json 200 json_success))"

section \<open>Ownership scoping\<close>

text \<open>
  What it means for a request of the caller \<open>me\<close> to leave the documents of other owners
  alone. After an update the collection has the same length and every document whose owner
  is not \<open>me\<close> stands unchanged at its position (\<open>others_untouched\<close>); after a deletion
  the documents whose owner is not \<open>me\<close> are the same, in the same order
  (\<open>others_kept\<close>). A returned array is scoped to \<open>me\<close> when the \<^verbatim>\<open>userId\<close> of every
  element is \<open>me\<close> (\<open>all_owned_by\<close>).
\<close>

definition others_untouched :: "('d \<Rightarrow> string) \<Rightarrow> string \<Rightarrow> 'd list \<Rightarrow> 'd list \<Rightarrow> bool" where
  "others_untouched owner me before after =
     list_all2 (\<lambda>d d'. owner d \<noteq> me \<longrightarrow> d' = d) before after"

definition others_kept :: "('d \<Rightarrow> string) \<Rightarrow> string \<Rightarrow> 'd list \<Rightarrow> 'd list \<Rightarrow> bool" where
  "others_kept owner me before after =
     (filter (\<lambda>d. owner d \<noteq> me) after = filter (\<lambda>d. owner d \<noteq> me) before)"

definition all_owned_by :: "string \<Rightarrow> jsval list \<Rightarrow> bool" where
  "all_owned_by me arr = list_all (\<lambda>j. lookup ''userId'' j = JStr me) arr"




definition opt_num :: "int option \<Rightarrow> jsval" where
  "opt_num v = (case v of None \<Rightarrow> JUndefined | Some n \<Rightarrow> JNum n)"

section \<open>A concrete environment and database\<close>

text \<open>
  An instance of the parameters, on which the theorems below are evaluated. An
  \<^verbatim>\<open>ObjectId\<close> is written as 24 hexadecimal digits and its string form is in lower
  case. The wire format of a token writes each field as a run of \<open>#\<close> of the field's
  length, a dot and the field; times are written in binary, lowest digit first.
\<close>

definition is_hex :: "char \<Rightarrow> bool" where
  "is_hex c = (c \<in> set ''0123456789abcdefABCDEF'')"

definition hex_lower :: "char \<Rightarrow> char" where
  "hex_lower c = (case map_of (zip ''ABCDEF'' ''abcdef'') c of None \<Rightarrow> c | Some l \<Rightarrow> l)"

definition hex24 :: "string \<Rightarrow> string option" where
  "hex24 i = (if length i = 24 \<and> list_all is_hex i then Some (map hex_lower i) else None)"

fun bits :: "nat \<Rightarrow> string" where
  "bits n = (if n = 0 then []
             else (if even n then CHR ''0'' else CHR ''1'') # bits (n div 2))"

declare bits.simps [simp del]

fun unbits :: "string \<Rightarrow> nat" where
  "unbits [] = 0"
| "unbits (c # cs) = (if c = CHR ''1'' then 1 else 0) + 2 * unbits cs"

definition put_field :: "string \<Rightarrow> string" where
  "put_field f = replicate (length f) (CHR ''#'') @ CHR ''.'' # f"

definition get_field :: "string \<Rightarrow> (string \<times> string) option" where
  "get_field t =
     (let n = length (takeWhile (\<lambda>c. c = CHR ''#'') t)
      in case drop n t of
           [] \<Rightarrow> None
         | c # r \<Rightarrow> if c = CHR ''.'' \<and> n \<le> length r then Some (take n r, drop n r) else None)"

definition test_encode :: "claims \<Rightarrow> string \<Rightarrow> string" where
  "test_encode c sg =
     put_field (c_id c) @ put_field (c_name c) @ put_field (c_email c) @
     put_field (bits (c_iat c)) @ put_field (bits (c_exp c)) @ put_field sg"

definition test_decode :: "string \<Rightarrow> (claims \<times> string) option" where
  "test_decode t =
     (case get_field t of None \<Rightarrow> None | Some (i, t1) \<Rightarrow>
      case get_field t1 of None \<Rightarrow> None | Some (n, t2) \<Rightarrow>
      case get_field t2 of None \<Rightarrow> None | Some (m, t3) \<Rightarrow>
      case get_field t3 of None \<Rightarrow> None | Some (a, t4) \<Rightarrow>
      case get_field t4 of None \<Rightarrow> None | Some (e, t5) \<Rightarrow>
      case get_field t5 of None \<Rightarrow> None | Some (sg, t6) \<Rightarrow>
      if t6 = []
      then Some (\<lparr>c_id = i, c_name = n, c_email = m, c_iat = unbits a, c_exp = unbits e\<rparr>, sg)
      else None)"

definition test_env :: env where
  "test_env =
     \<lparr>JWT_SECRET = ''s3cret'',
      jwt_mac = (\<lambda>secret c. secret @ ''/'' @ c_id c),
      jwt_encode = test_encode,
      jwt_decode = test_decode,
      bcrypt_hash = (\<lambda>pw. ''$2a$10$'' @ pw),
      bcrypt_compare = (\<lambda>pw h. h = ''$2a$10$'' @ pw),
      toISOString = (\<lambda>ms. if ms = 1 then ''1970-01-01T00:00:00.001Z''
                           else if ms = 2 then ''1970-01-01T00:00:00.002Z''
                           else ''1970-01-01T00:00:05.000Z''),
      validation_message = (\<lambda>paths. ''User validation failed: '' @ concat paths),
      castObjectId = hex24\<rparr>"

definition alice :: user where
  "alice = \<lparr>u_id = ''64b7f0a1c2d3e4f5a6b7c801'', u_name = ''Alice'',
             u_email = ''alice@example.org'', u_passwordHash = ''$2a$10$wonderland'',
             u_position = ''Member'', u_createdAt = 1\<rparr>"

definition bob :: user where
  "bob = \<lparr>u_id = ''64b7f0a1c2d3e4f5a6b7c802'', u_name = ''Bob'',
           u_email = ''bob@example.org'', u_passwordHash = ''$2a$10$builder'',
           u_position = ''Lead'', u_createdAt = 2\<rparr>"

text \<open>The payloads of the tokens issued to the two users at the clock reading 1000000.\<close>

definition alice_claims :: claims where
  "alice_claims = \<lparr>c_id = ''64b7f0a1c2d3e4f5a6b7c801'', c_name = ''Alice'',
                    c_email = ''alice@example.org'', c_iat = 1000, c_exp = 605800\<rparr>"

definition bob_claims :: claims where
  "bob_claims = \<lparr>c_id = ''64b7f0a1c2d3e4f5a6b7c802'', c_name = ''Bob'',
                  c_email = ''bob@example.org'', c_iat = 1000, c_exp = 605800\<rparr>"


definition forged :: string where
  "forged = test_encode alice_claims ''forged''"

definition tx1 :: transaction where
  "tx1 = \<lparr>t_id = ''65c1aa000000000000000001'', t_userId = ''64b7f0a1c2d3e4f5a6b7c801'',
           t_userName = ''Alice'', t_date = ''2024-01-05'',
           t_type = ''INCOME'', t_category = ''Salary'', t_amount = 100,
           t_paymentMethod = ''BANK'', t_bankAccountId = None, t_bankName = None,
           t_description = [], t_attachment = None, t_investmentType = ''SINGLE'',
           t_investors = Some [], t_createdAt = ''T''\<rparr>"

definition tx2 :: transaction where
  "tx2 = \<lparr>t_id = ''65c1aa000000000000000002'', t_userId = ''64b7f0a1c2d3e4f5a6b7c802'',
           t_userName = ''Bob'', t_date = ''2024-02-01'',
           t_type = ''EXPENSE'', t_category = ''Food'', t_amount = 7,
           t_paymentMethod = ''CASH'', t_bankAccountId = None, t_bankName = None,
           t_description = ''lunch'', t_attachment = None, t_investmentType = ''SINGLE'',
           t_investors = Some [], t_createdAt = ''T''\<rparr>"

definition tx3 :: transaction where
  "tx3 = \<lparr>t_id = ''65c1aa000000000000000003'', t_userId = ''64b7f0a1c2d3e4f5a6b7c801'',
           t_userName = ''Alice'', t_date = ''2024-03-09'',
           t_type = ''EXPENSE'', t_category = ''Rent'', t_amount = 50,
           t_paymentMethod = ''CARD'', t_bankAccountId = Some ''65d2bb000000000000000001'',
           t_bankName = Some ''Nexo'',
           t_description = [], t_attachment = None, t_investmentType = ''TEAM'',
           t_investors = Some [''Alice'', ''Bob''], t_createdAt = ''T''\<rparr>"

definition bank1 :: bank where
  "bank1 = \<lparr>b_id = ''65d2bb000000000000000001'', b_userId = ''64b7f0a1c2d3e4f5a6b7c801'',
             b_bankName = ''Nexo'', b_holderName = ''Alice'',
             b_cardNumber = ''4111'', b_expiryDate = ''12/30'', b_cardType = ''DEBIT''\<rparr>"

definition bank2 :: bank where
  "bank2 = \<lparr>b_id = ''65d2bb000000000000000002'', b_userId = ''64b7f0a1c2d3e4f5a6b7c802'',
             b_bankName = ''Crew'', b_holderName = ''Bob'',
             b_cardNumber = ''5500'', b_expiryDate = ''01/29'', b_cardType = ''CREDIT''\<rparr>"

definition db0 :: db where
  "db0 = \<lparr>users = [alice, bob], transactions = [tx1, tx2, tx3], banks = [bank1, bank2]\<rparr>"

text \<open>
  Identifiers of a request: those of the three stored transactions, and one that casts and
  that no document has.
\<close>

definition stored_ids :: "string list" where
  "stored_ids = [''65c1aa000000000000000001'', ''65c1aa000000000000000002'',
                 ''65c1aa000000000000000003'']"


definition no_fields :: txBody where
  "no_fields = \<lparr>x_userId = None, x_userName = None, x_date = None, x_type = None,
                 x_category = None, x_amount = None, x_paymentMethod = None,
                 x_bankAccountId = None, x_bankName = None, x_description = None,
                 x_attachment = None, x_investmentType = None, x_investors = None,
                 x_createdAt = None\<rparr>"

definition no_bank_fields :: bankBody where
  "no_bank_fields = \<lparr>y_userId = None, y_bankName = None, y_holderName = None,
                      y_cardNumber = None, y_expiryDate = None, y_cardType = None\<rparr>"

text \<open>Two request bodies: a rent payment and a card that names another user as owner.\<close>

definition rent :: txBody where
  "rent = no_fields\<lparr>x_date := Some ''2024-04-01'', x_type := Some ''EXPENSE'',
                    x_category := Some ''Rent'', x_amount := Some 50,
                    x_paymentMethod := Some ''CARD'',
                    x_bankAccountId := Some ''65d2bb000000000000000001''\<rparr>"

definition card :: bankBody where
  "card = \<lparr>y_userId = Some ''64b7f0a1c2d3e4f5a6b7c802'', y_bankName = Some ''Nexo'',
           y_holderName = Some ''Alice'', y_cardNumber = Some ''4111'',
           y_expiryDate = Some ''12/30'', y_cardType = Some ''DEBIT''\<rparr>"

text \<open>A body that names another user as the owner, and nothing else.\<close>

definition takeover :: txBody where
  "takeover = no_fields\<lparr>x_userId := Some ''64b7f0a1c2d3e4f5a6b7c802''\<rparr>"


section \<open>The wire format of the concrete environment\<close>

lemma unbits_bits: "unbits (bits n) = n"
proof (induction n rule: bits.induct)
  case (1 n)
  show ?case
  proof (cases "n = 0")
    case True
    then show ?thesis by (simp add: bits.simps [of 0])
  next
    case False
    with 1 have "unbits (bits (n div 2)) = n div 2" by simp
    with False show ?thesis by (simp add: bits.simps [of n])
  qed
qed

lemma takeWhile_run: "x \<noteq> y \<Longrightarrow> takeWhile (\<lambda>c. c = x) (replicate n x @ y # r) = replicate n x"
  by (induction n) simp_all

lemma get_put_field: "get_field (put_field f @ rest) = Some (f, rest)"
proof -
  have "takeWhile (\<lambda>c. c = CHR ''#'') (replicate (length f) (CHR ''#'') @ CHR ''.'' # f @ rest) =
        replicate (length f) (CHR ''#'')"
    by (rule takeWhile_run) simp
  then show ?thesis by (simp add: get_field_def put_field_def)
qed

lemma get_put_field_end: "get_field (put_field f) = Some (f, [])"
  using get_put_field [of f "[]"] by simp

lemma put_field_not_empty: "put_field f \<noteq> []"
  by (simp add: put_field_def)

lemma test_codec: "test_decode (test_encode c sg) = Some (c, sg)"
  by (simp add: test_decode_def test_encode_def get_put_field get_put_field_end unbits_bits)


lemma test_env_fields:
  "jwt_decode test_env = test_decode" "jwt_encode test_env = test_encode"
  "JWT_SECRET test_env = ''s3cret''" "jwt_mac test_env secret c = secret @ ''/'' @ c_id c"
  "castObjectId test_env = hex24"
  by (simp_all add: test_env_def)

lemma forged_token:
  "forged \<noteq> []" "jwt_decode test_env forged = Some (alice_claims, ''forged'')"
  "jwt_verify test_env now forged = None" "bad_signature test_env forged"
  by (simp_all add: forged_def test_env_fields test_codec jwt_verify_def bad_signature_def)
     (simp add: test_encode_def put_field_not_empty)

lemma issued_to_alice:
  "createToken test_env 1000000 alice =
     test_encode alice_claims (''s3cret/'' @ ''64b7f0a1c2d3e4f5a6b7c801'')"
  by (simp add: createToken_def jwt_sign_def jwt_claims_def seven_days_def test_env_fields
        alice_def alice_claims_def)

section \<open>Authentication\<close>

lemma auth_without_prefix:
  "\<not> startsWith ''Bearer '' header \<Longrightarrow>
     auth E now (Some header) = Inl (Json 401 (json_error ''No token''))"
  by (simp add: auth_def bearer_token_def)

lemma auth_rejected_token:
  "tok \<noteq> [] \<Longrightarrow> jwt_verify E now tok = None \<Longrightarrow>
     auth E now (Some (''Bearer '' @ tok)) = Inl (Json 401 (json_error ''Invalid token''))"
  by (simp add: auth_def bearer_token_def startsWith_def)

text \<open>
  Claim C10. On a protected route the \<^verbatim>\<open>Authorization\<close> header must start with the
  exact, case-sensitive prefix \<^verbatim>\<open>Bearer \<close> (capital B, one space). A request without the
  header, or with a header that does not start with that prefix (such as
  \<^verbatim>\<open>bearer <token>\<close> or the bare token), is answered with status 401 and the body
  \<^verbatim>\<open>{error: "No token"}\<close>, and the handler does not run. A token that is present
  but fails verification is answered with status 401 and \<^verbatim>\<open>{error: "Invalid token"}\<close>,
  which is a different body.
\<close>

theorem auth_requires_bearer_prefix:
  "auth E now None = Inl (Json 401 (json_error ''No token'')) \<and>
   (\<not> startsWith ''Bearer '' header \<longrightarrow>
      auth E now (Some header) = Inl (Json 401 (json_error ''No token'')) \<and>
      protected E now (Some header) handler s = (s, Json 401 (json_error ''No token''))) \<and>
   (tok \<noteq> [] \<and> jwt_verify E now tok = None \<longrightarrow>
      auth E now (Some (''Bearer '' @ tok)) = Inl (Json 401 (json_error ''Invalid token'')) \<and>
      protected E now (Some (''Bearer '' @ tok)) handler s =
        (s, Json 401 (json_error ''Invalid token''))) \<and>
   json_error ''No token'' \<noteq> json_error ''Invalid token''"
  by (simp add: auth_without_prefix auth_rejected_token protected_def)
     (simp add: auth_def bearer_token_def startsWith_def json_error_def)

theorem auth_requires_bearer_prefix_witness:
  "\<not> startsWith ''Bearer '' (''bearer '' @ createToken test_env 1000000 alice) \<and>
   auth test_env 5000 (Some (''bearer '' @ createToken test_env 1000000 alice)) =
     Inl (Json 401 (JObj [(''error'', JStr ''No token'')])) \<and>
   protected test_env 5000 (Some (''bearer '' @ createToken test_env 1000000 alice))
       get_transactions db0 =
     (db0, Json 401 (JObj [(''error'', JStr ''No token'')])) \<and>
   \<not> startsWith ''Bearer '' (createToken test_env 1000000 alice) \<and>
   auth test_env 5000 (Some (createToken test_env 1000000 alice)) =
     Inl (Json 401 (JObj [(''error'', JStr ''No token'')])) \<and>
   forged \<noteq> [] \<and> jwt_verify test_env 5000 forged = None \<and>
   auth test_env 5000 (Some (''Bearer '' @ forged)) =
     Inl (Json 401 (JObj [(''error'', JStr ''Invalid token'')]))"
proof -
  have a: "\<not> startsWith ''Bearer '' (''bearer '' @ createToken test_env 1000000 alice)"
    by (simp add: startsWith_def)
  have b: "\<not> startsWith ''Bearer '' (createToken test_env 1000000 alice)"
    by (simp add: issued_to_alice test_encode_def put_field_def alice_claims_def startsWith_def)
  from a b forged_token(1) forged_token(3) [of 5000]
    auth_requires_bearer_prefix
      [where E = test_env and now = 5000 and handler = get_transactions and s = db0 and
             header = "''bearer '' @ createToken test_env 1000000 alice" and tok = forged]
    auth_requires_bearer_prefix
      [where E = test_env and now = 5000 and handler = get_transactions and s = db0 and
             header = "createToken test_env 1000000 alice" and tok = forged]
  show ?thesis by (simp add: json_error_def)
qed

section \<open>Login\<close>

lemma login_unknown_email:
  "findOne (\<lambda>u. u_email u = l_email body) (users s) = None \<Longrightarrow>
     login E now body s = Json 400 (json_error ''Invalid credentials'')"
  by (simp add: login_def)

lemma login_wrong_password:
  "findOne (\<lambda>u. u_email u = l_email body) (users s) = Some u \<Longrightarrow>
   l_password body = Some pw \<Longrightarrow> \<not> bcrypt_compare E pw (u_passwordHash u) \<Longrightarrow>
     login E now body s = Json 400 (json_error ''Invalid credentials'')"
  by (simp add: login_def)

lemma login_no_string_password:
  "findOne (\<lambda>u. u_email u = l_email body) (users s) = Some u \<Longrightarrow>
   l_password body = None \<Longrightarrow> login E now body s = Unhandled"
  by (simp add: login_def)

lemma login_string_password_outcomes:
  "l_password body = Some pw \<Longrightarrow>
     login E now body s = Json 400 (json_error ''Invalid credentials'') \<or>
     (\<exists>u. findOne (\<lambda>u. u_email u = l_email body) (users s) = Some u \<and>
          bcrypt_compare E pw (u_passwordHash u) \<and>
          login E now body s =
            Json 200 (JObj [(''user'', sanitizeUser E u),
                            (''token'', JStr (createToken E now u))]))"
  by (auto simp: login_def split: option.splits)

text \<open>
  Claim C5, as the code has it. Among login attempts whose password is a string, a failed
  attempt is answered with status 400 and the same body
  \<^verbatim>\<open>{error: "Invalid credentials"}\<close> whether no user has the email or the password does
  not verify against the stored hash, and every other such attempt is answered with status
  200; so these responses do not tell an unknown email from a wrong password. An attempt
  whose password is missing or not a string gets that same 400 when no user has the email,
  and no response from the handler when a user has it.
\<close>

theorem login_failure_uniform:
  "(findOne (\<lambda>u. u_email u = l_email body) (users s) = None \<longrightarrow>
      login E now body s = Json 400 (json_error ''Invalid credentials'')) \<and>
   (\<forall>u pw. findOne (\<lambda>u. u_email u = l_email body) (users s) = Some u \<and>
        l_password body = Some pw \<and> \<not> bcrypt_compare E pw (u_passwordHash u) \<longrightarrow>
      login E now body s = Json 400 (json_error ''Invalid credentials'')) \<and>
   (\<forall>pw. l_password body = Some pw \<longrightarrow>
      login E now body s = Json 400 (json_error ''Invalid credentials'') \<or>
      (\<exists>u. findOne (\<lambda>u. u_email u = l_email body) (users s) = Some u \<and>
           bcrypt_compare E pw (u_passwordHash u) \<and>
           login E now body s =
             Json 200 (JObj [(''user'', sanitizeUser E u),
                             (''token'', JStr (createToken E now u))]))) \<and>
   (\<forall>u. findOne (\<lambda>u. u_email u = l_email body) (users s) = Some u \<and>
        l_password body = None \<longrightarrow> login E now body s = Unhandled)"
  using login_unknown_email [of body s E now] login_wrong_password [of body s _ _ E now]
    login_string_password_outcomes [of body _ E now s] login_no_string_password [of body s _ E now]
  by blast

theorem login_failure_uniform_witness:
  "findOne (\<lambda>u. u_email u = ''carol@example.org'') (users db0) = None \<and>
   login test_env 5000 \<lparr>l_email = ''carol@example.org'', l_password = Some ''wonderland''\<rparr> db0 =
     Json 400 (JObj [(''error'', JStr ''Invalid credentials'')]) \<and>
   findOne (\<lambda>u. u_email u = ''alice@example.org'') (users db0) = Some alice \<and>
   \<not> bcrypt_compare test_env ''guess'' (u_passwordHash alice) \<and>
   login test_env 5000 \<lparr>l_email = ''alice@example.org'', l_password = Some ''guess''\<rparr> db0 =
     Json 400 (JObj [(''error'', JStr ''Invalid credentials'')]) \<and>
   bcrypt_compare test_env ''wonderland'' (u_passwordHash alice) \<and>
   login test_env 5000 \<lparr>l_email = ''alice@example.org'', l_password = Some ''wonderland''\<rparr> db0 =
     Json 200 (JObj [(''user'', sanitizeUser test_env alice),
                     (''token'', JStr (createToken test_env 5000 alice))])"
proof -
  have c: "findOne (\<lambda>u. u_email u = ''carol@example.org'') (users db0) = None"
    by (simp add: findOne_def db0_def alice_def bob_def)
  have a: "findOne (\<lambda>u. u_email u = ''alice@example.org'') (users db0) = Some alice"
    by (simp add: findOne_def db0_def alice_def bob_def)
  have g: "\<not> bcrypt_compare test_env ''guess'' (u_passwordHash alice)"
    by (simp add: test_env_def alice_def)
  have w: "bcrypt_compare test_env ''wonderland'' (u_passwordHash alice)"
    by (simp add: test_env_def alice_def)
  note t1 = login_failure_uniform
      [where body = "\<lparr>l_email = ''carol@example.org'', l_password = Some ''wonderland''\<rparr>"
         and s = db0 and E = test_env and now = 5000]
  note t2 = login_failure_uniform
      [where body = "\<lparr>l_email = ''alice@example.org'', l_password = Some ''guess''\<rparr>"
         and s = db0 and E = test_env and now = 5000]
  note t3 = login_failure_uniform
      [where body = "\<lparr>l_email = ''alice@example.org'', l_password = Some ''wonderland''\<rparr>"
         and s = db0 and E = test_env and now = 5000]
  from t1 c have 1:
    "login test_env 5000 \<lparr>l_email = ''carol@example.org'', l_password = Some ''wonderland''\<rparr> db0 =
       Json 400 (json_error ''Invalid credentials'')" by simp
  from t2 a g have 2:
    "login test_env 5000 \<lparr>l_email = ''alice@example.org'', l_password = Some ''guess''\<rparr> db0 =
       Json 400 (json_error ''Invalid credentials'')" by simp
  have 3:
    "login test_env 5000 \<lparr>l_email = ''alice@example.org'', l_password = Some ''wonderland''\<rparr> db0 =
       Json 200 (JObj [(''user'', sanitizeUser test_env alice),
                       (''token'', JStr (createToken test_env 5000 alice))])"
    using a w by (simp add: login_def)
  from c a g w 1 2 3 show ?thesis by (simp add: json_error_def)
qed

text \<open>
  Claim C5 as stated fails when the password is missing: for Alice's registered email the
  handler sends no response, and for an email that no user has it answers 400, so the two
  outcomes differ and tell whether the email exists.
\<close>

theorem login_missing_password_counterexample:
  "findOne (\<lambda>u. u_email u = ''alice@example.org'') (users db0) = Some alice \<and>
   login test_env 5000 \<lparr>l_email = ''alice@example.org'', l_password = None\<rparr> db0 = Unhandled \<and>
   findOne (\<lambda>u. u_email u = ''carol@example.org'') (users db0) = None \<and>
   login test_env 5000 \<lparr>l_email = ''carol@example.org'', l_password = None\<rparr> db0 =
     Json 400 (JObj [(''error'', JStr ''Invalid credentials'')]) \<and>
   login test_env 5000 \<lparr>l_email = ''alice@example.org'', l_password = None\<rparr> db0 \<noteq>
   login test_env 5000 \<lparr>l_email = ''carol@example.org'', l_password = None\<rparr> db0"
  by (simp add: login_def findOne_def db0_def alice_def bob_def json_error_def)

section \<open>Ownership scoping of reads, updates and deletions\<close>

lemma others_untouched_refl: "others_untouched owner me ds ds"
  by (simp add: others_untouched_def list_all2_same)

lemma updateOne_others:
  "(\<And>d. q d \<Longrightarrow> owner d = me) \<Longrightarrow> others_untouched owner me ds (updateOne q f ds)"
proof (induction ds)
  case Nil
  then show ?case by (simp add: others_untouched_def)
next
  case (Cons d ds)
  show ?case
  proof (cases "q d")
    case True
    with Cons.prems have "owner d = me" by simp
    with True others_untouched_refl [of owner me ds] show ?thesis
      by (simp add: others_untouched_def)
  next
    case False
    with Cons show ?thesis by (simp add: others_untouched_def)
  qed
qed

lemma updateMany_others:
  "(\<And>d. q d \<Longrightarrow> owner d = me) \<Longrightarrow> others_untouched owner me ds (updateMany q f ds)"
  by (induction ds) (auto simp: others_untouched_def updateMany_def)

lemma deleteOne_others:
  "(\<And>d. q d \<Longrightarrow> owner d = me) \<Longrightarrow> others_kept owner me ds (deleteOne q ds)"
  by (induction ds) (auto simp: others_kept_def)

lemma deleteMany_others:
  "(\<And>d. q d \<Longrightarrow> owner d = me) \<Longrightarrow> others_kept owner me ds (deleteMany q ds)"
  by (induction ds) (auto simp: others_kept_def deleteMany_def)

lemma lookup_userId_mapTransaction: "lookup ''userId'' (mapTransaction t) = JStr (t_userId t)"
  by (simp add: mapTransaction_def)

lemma lookup_userId_mapBank: "lookup ''userId'' (mapBank b) = JStr (b_userId b)"
  by (simp add: mapBank_def)

lemma get_transactions_scoped:
  "\<exists>arr. get_transactions caller s = (s, Json 200 (JArr arr)) \<and> all_owned_by (c_id caller) arr"
  by (simp add: get_transactions_def all_owned_by_def list_all_iff sort_desc_def findMany_def
        lookup_userId_mapTransaction)

lemma get_banks_scoped:
  "\<exists>arr. get_banks caller s = (s, Json 200 (JArr arr)) \<and> all_owned_by (c_id caller) arr"
  by (simp add: get_banks_def all_owned_by_def list_all_iff findMany_def lookup_userId_mapBank)

lemma put_transaction_scoped:
  "others_untouched t_userId (c_id caller) (transactions s)
     (transactions (fst (put_transaction E ident body caller s)))"
proof (cases "castObjectId E ident")
  case None
  then show ?thesis by (simp add: put_transaction_def others_untouched_refl)
next
  case (Some oid)
  then show ?thesis by (simp add: put_transaction_def) (rule updateOne_others, simp)
qed

lemma bulk_category_scoped:
  "others_untouched t_userId (c_id caller) (transactions s)
     (transactions (fst (bulk_category E ids category caller s)))"
proof (cases "cast_all E ids")
  case None
  then show ?thesis by (simp add: bulk_category_def others_untouched_refl)
next
  case (Some oids)
  then show ?thesis by (simp add: bulk_category_def) (rule updateMany_others, simp)
qed

lemma delete_transaction_scoped:
  "others_kept t_userId (c_id caller) (transactions s)
     (transactions (fst (delete_transaction E ident caller s)))"
proof (cases "castObjectId E ident")
  case None
  then show ?thesis by (simp add: delete_transaction_def others_kept_def)
next
  case (Some oid)
  then show ?thesis by (simp add: delete_transaction_def) (rule deleteOne_others, simp)
qed

lemma bulk_delete_scoped:
  "others_kept t_userId (c_id caller) (transactions s)
     (transactions (fst (bulk_delete E ids caller s)))"
proof (cases "cast_all E ids")
  case None
  then show ?thesis by (simp add: bulk_delete_def others_kept_def)
next
  case (Some oids)
  then show ?thesis by (simp add: bulk_delete_def) (rule deleteMany_others, simp)
qed

lemma put_bank_scoped:
  "others_untouched b_userId (c_id caller) (banks s)
     (banks (fst (put_bank E ident bbody caller s)))"
proof (cases "castObjectId E ident")
  case None
  then show ?thesis by (simp add: put_bank_def others_untouched_refl)
next
  case (Some oid)
  then show ?thesis by (simp add: put_bank_def) (rule updateOne_others, simp)
qed

lemma delete_bank_scoped:
  "others_kept b_userId (c_id caller) (banks s) (banks (fst (delete_bank E ident caller s)))"
proof (cases "castObjectId E ident")
  case None
  then show ?thesis by (simp add: delete_bank_def others_kept_def)
next
  case (Some oid)
  then show ?thesis by (simp add: delete_bank_def) (rule deleteOne_others, simp)
qed

lemma tx_writes_leave_banks:
  "banks (fst (put_transaction E ident body caller s)) = banks s \<and>
   banks (fst (delete_transaction E ident caller s)) = banks s \<and>
   banks (fst (bulk_delete E ids caller s)) = banks s \<and>
   banks (fst (bulk_category E ids category caller s)) = banks s"
  by (simp add: put_transaction_def delete_transaction_def bulk_delete_def bulk_category_def
        split: option.splits)

lemma bank_writes_leave_transactions:
  "transactions (fst (put_bank E bident bbody caller s)) = transactions s \<and>
   transactions (fst (delete_bank E bident caller s)) = transactions s"
  by (simp add: put_bank_def delete_bank_def split: option.splits)

lemma hex24_stored:
  "hex24 ''65c1aa000000000000000001'' = Some ''65c1aa000000000000000001''"
  "hex24 ''65c1aa000000000000000002'' = Some ''65c1aa000000000000000002''"
  "hex24 ''65c1aa000000000000000003'' = Some ''65c1aa000000000000000003''"
  "hex24 ''65d2bb000000000000000001'' = Some ''65d2bb000000000000000001''"
  "hex24 ''65d2bb000000000000000002'' = Some ''65d2bb000000000000000002''"
  by (simp_all add: hex24_def is_hex_def hex_lower_def)


lemma cast_stored_ids: "cast_all test_env stored_ids = Some stored_ids"
  by (simp add: stored_ids_def test_env_fields hex24_stored)

text \<open>
  Claim C1. Every read, update and delete over transactions and banks carries the filter
  \<^verbatim>\<open>userId: req.user.id\<close> next to any id the client supplies, also in the two bulk
  operations. So for every caller: the arrays returned by \<^verbatim>\<open>GET /transactions\<close> and
  \<^verbatim>\<open>GET /banks\<close> hold only records whose \<^verbatim>\<open>userId\<close> is the caller's id; an update
  (\<^verbatim>\<open>PUT\<close>, bulk-category) leaves every document of another owner unchanged; a deletion
  (\<^verbatim>\<open>DELETE\<close>, bulk-delete) keeps every document of another owner; and an operation on
  one collection does not touch the other.
\<close>

theorem owner_filter_isolation:
  "(\<exists>arr. get_transactions caller s = (s, Json 200 (JArr arr)) \<and> all_owned_by (c_id caller) arr) \<and>
   others_untouched t_userId (c_id caller) (transactions s)
     (transactions (fst (put_transaction E ident body caller s))) \<and>
   others_kept t_userId (c_id caller) (transactions s)
     (transactions (fst (delete_transaction E ident caller s))) \<and>
   others_kept t_userId (c_id caller) (transactions s)
     (transactions (fst (bulk_delete E ids caller s))) \<and>
   others_untouched t_userId (c_id caller) (transactions s)
     (transactions (fst (bulk_category E ids category caller s))) \<and>
   (\<exists>arr. get_banks caller s = (s, Json 200 (JArr arr)) \<and> all_owned_by (c_id caller) arr) \<and>
   others_untouched b_userId (c_id caller) (banks s)
     (banks (fst (put_bank E bident bbody caller s))) \<and>
   others_kept b_userId (c_id caller) (banks s) (banks (fst (delete_bank E bident caller s))) \<and>
   banks (fst (put_transaction E ident body caller s)) = banks s \<and>
   banks (fst (delete_transaction E ident caller s)) = banks s \<and>
   banks (fst (bulk_delete E ids caller s)) = banks s \<and>
   banks (fst (bulk_category E ids category caller s)) = banks s \<and>
   transactions (fst (put_bank E bident bbody caller s)) = transactions s \<and>
   transactions (fst (delete_bank E bident caller s)) = transactions s"
  using get_transactions_scoped [of caller s] put_transaction_scoped [of caller s E ident body]
    delete_transaction_scoped [of caller s E ident] bulk_delete_scoped [of caller s E ids]
    bulk_category_scoped [of caller s E ids category] get_banks_scoped [of caller s]
    put_bank_scoped [of caller s E bident bbody] delete_bank_scoped [of caller s E bident]
    tx_writes_leave_banks [of E ident body caller s ids category]
    bank_writes_leave_transactions [of E bident bbody caller s]
  by simp

theorem owner_filter_isolation_witness:
  "t_userId tx1 \<noteq> c_id bob_claims \<and> t_userId tx3 \<noteq> c_id bob_claims \<and>
   b_userId bank1 \<noteq> c_id bob_claims \<and>
   castObjectId test_env (t_id tx1) = Some (t_id tx1) \<and>
   castObjectId test_env (b_id bank1) = Some (b_id bank1) \<and>
   cast_all test_env stored_ids = Some (map t_id [tx1, tx2, tx3]) \<and>
   get_transactions bob_claims db0 = (db0, Json 200 (JArr [mapTransaction tx2])) \<and>
   put_transaction test_env (t_id tx1) (no_fields\<lparr>x_category := Some ''Mine''\<rparr>) bob_claims db0 =
     (db0, Json 200 (JObj [(''success'', JBool True)])) \<and>
   delete_transaction test_env (t_id tx1) bob_claims db0 =
     (db0, Json 200 (JObj [(''success'', JBool True)])) \<and>
   transactions (fst (bulk_delete test_env stored_ids bob_claims db0)) = [tx1, tx3] \<and>
   transactions (fst (bulk_category test_env stored_ids (Some ''Mine'') bob_claims db0)) =
     [tx1, tx2\<lparr>t_category := ''Mine''\<rparr>, tx3] \<and>
   get_banks bob_claims db0 = (db0, Json 200 (JArr [mapBank bank2])) \<and>
   put_bank test_env (b_id bank1) (no_bank_fields\<lparr>y_holderName := Some ''Bob''\<rparr>) bob_claims db0 =
     (db0, Json 200 (JObj [(''success'', JBool True)])) \<and>
   delete_bank test_env (b_id bank1) bob_claims db0 =
     (db0, Json 200 (JObj [(''success'', JBool True)]))"
  using owner_filter_isolation
          [where caller = bob_claims and s = db0 and E = test_env and ident = "t_id tx1" and
                 body = "no_fields\<lparr>x_category := Some ''Mine''\<rparr>" and ids = stored_ids and
                 category = "Some ''Mine''" and bident = "b_id bank1" and
                 bbody = "no_bank_fields\<lparr>y_holderName := Some ''Bob''\<rparr>"]
        cast_stored_ids
  by (simp add: others_untouched_def others_kept_def all_owned_by_def
        get_transactions_def put_transaction_def delete_transaction_def bulk_delete_def
        bulk_category_def get_banks_def put_bank_def delete_bank_def json_success_def
        findMany_def sort_desc_def updateMany_def deleteMany_def dflt_def
        test_env_fields hex24_stored stored_ids_def
        db0_def tx1_def tx2_def tx3_def bank1_def bank2_def bob_claims_def)

section \<open>Updates and deletions without a target\<close>

















section \<open>Listing transactions\<close>



text \<open>
  The \<^verbatim>\<open>date\<close> path is a \<^verbatim>\<open>String\<close>, so the order of the list is the order of the
  stored strings: it is the order of the dates for formats such as ISO 8601, whose string
  order is the chronological one, and not for others.
\<close>

lemma date_order_is_bytewise:
  "sort_desc (\<lambda>x. x) [''10/1/2024'', ''9/1/2024''] = [''9/1/2024'', ''10/1/2024'']"
  by (simp add: sort_desc_def)



section \<open>Responses that carry user data\<close>















section \<open>Creating records\<close>

lemma spread_owner_overrides:
  "spread_owner (body\<lparr>x_userId := u, x_userName := n\<rparr>) caller = spread_owner body caller"
  by (simp add: spread_owner_def)

lemma spread_bank_owner_overrides:
  "spread_bank_owner (bbody\<lparr>y_userId := u\<rparr>) caller = spread_bank_owner bbody caller"
  by (simp add: spread_bank_owner_def)

lemma Transaction_create_owner:
  "Transaction_create E now newId (spread_owner body caller) = Some d \<Longrightarrow>
     t_userId d = c_id caller \<and> t_userName d = c_name caller"
  by (auto simp: Transaction_create_def spread_owner_def dflt_def split: if_splits)

lemma Bank_create_owner:
  "Bank_create newId (spread_bank_owner bbody caller) = Some b \<Longrightarrow> b_userId b = c_id caller"
  by (auto simp: Bank_create_def spread_bank_owner_def dflt_def split: if_splits)

lemma post_transactions_cases:
  "post_transactions E now newId body caller s = (s, Unhandled) \<or>
   (\<exists>d. post_transactions E now newId body caller s =
          (s\<lparr>transactions := transactions s @ [d]\<rparr>, Json 200 (mapTransaction d)) \<and>
        t_userId d = c_id caller \<and> t_userName d = c_name caller)"
  by (auto simp: post_transactions_def create_def dest: Transaction_create_owner split: option.splits)

lemma post_banks_cases:
  "post_banks newId bbody caller s = (s, Unhandled) \<or>
   (\<exists>b. post_banks newId bbody caller s =
          (s\<lparr>banks := banks s @ [b]\<rparr>, Json 200 (mapBank b)) \<and> b_userId b = c_id caller)"
  by (auto simp: post_banks_def create_def dest: Bank_create_owner split: option.splits)

text \<open>
  Claim C9. In \<^verbatim>\<open>POST /transactions\<close> and \<^verbatim>\<open>POST /banks\<close> the server-side
  properties are written after the spread of the body, so a \<^verbatim>\<open>userId\<close> (and, for
  transactions, a \<^verbatim>\<open>userName\<close>) supplied by the client has no effect: the result is
  the same whatever the body says about them, and every record that is created carries the
  caller's id (and name).
\<close>

theorem created_records_owned_by_caller:
  "post_transactions E now newId (body\<lparr>x_userId := u, x_userName := n\<rparr>) caller s =
     post_transactions E now newId body caller s \<and>
   post_banks newId (bbody\<lparr>y_userId := u\<rparr>) caller s = post_banks newId bbody caller s \<and>
   (post_transactions E now newId body caller s = (s, Unhandled) \<or>
    (\<exists>d. post_transactions E now newId body caller s =
           (s\<lparr>transactions := transactions s @ [d]\<rparr>, Json 200 (mapTransaction d)) \<and>
         t_userId d = c_id caller \<and> t_userName d = c_name caller)) \<and>
   (post_banks newId bbody caller s = (s, Unhandled) \<or>
    (\<exists>b. post_banks newId bbody caller s =
           (s\<lparr>banks := banks s @ [b]\<rparr>, Json 200 (mapBank b)) \<and> b_userId b = c_id caller))"
  using post_transactions_cases [of E now newId body caller s] post_banks_cases [of newId bbody caller s]
  by (simp add: post_transactions_def post_banks_def spread_owner_overrides spread_bank_owner_overrides)

theorem created_records_owned_by_caller_witness:
  "snd (post_transactions test_env 5000 ''t4''
          (rent\<lparr>x_userId := Some ''64b7f0a1c2d3e4f5a6b7c802'', x_userName := Some ''Bob''\<rparr>) alice_claims db0) =
     Json 200 (JObj
       [(''id'', JStr ''t4''), (''userId'', JStr ''64b7f0a1c2d3e4f5a6b7c801''), (''userName'', JStr ''Alice''),
        (''date'', JStr ''2024-04-01''), (''type'', JStr ''EXPENSE''),
        (''category'', JStr ''Rent''), (''amount'', JNum 50), (''paymentMethod'', JStr ''CARD''),
        (''bankAccountId'', JStr ''65d2bb000000000000000001''), (''bankName'', JUndefined), (''description'', JStr ''''),
        (''attachment'', JUndefined), (''investmentType'', JStr ''SINGLE''),
        (''investors'', JArr []), (''createdAt'', JStr ''1970-01-01T00:00:05.000Z'')]) \<and>
   snd (post_banks ''b3'' card alice_claims db0) =
     Json 200 (JObj
       [(''id'', JStr ''b3''), (''userId'', JStr ''64b7f0a1c2d3e4f5a6b7c801''), (''bankName'', JStr ''Nexo''),
        (''holderName'', JStr ''Alice''), (''cardNumber'', JStr ''4111''),
        (''expiryDate'', JStr ''12/30''), (''cardType'', JStr ''DEBIT'')])"
  using created_records_owned_by_caller
          [where E = test_env and now = 5000 and newId = "''t4''" and body = rent and
                 u = "Some ''64b7f0a1c2d3e4f5a6b7c802''" and n = "Some ''Bob''" and caller = alice_claims and
                 s = db0 and bbody = card]
  by (simp add: post_transactions_def post_banks_def spread_owner_def spread_bank_owner_def
        Transaction_create_def Bank_create_def validate_tx_def validate_bank_def required_str_def
        enum_ok_def dflt_def create_def mapTransaction_def mapBank_def opt_str_def
        rent_def card_def no_fields_def alice_claims_def test_env_def)

lemma required_str_opt: "required_str v \<Longrightarrow> JStr (dflt [] v) = opt_str v"
  by (cases v) (simp_all add: required_str_def dflt_def opt_str_def)

lemma required_num_opt: "v \<noteq> None \<Longrightarrow> JNum (dflt 0 v) = opt_num v"
  by (cases v) (simp_all add: dflt_def opt_num_def)

lemma mapTransaction_created:
  assumes "validate_tx (spread_owner F caller)"
    and "Transaction_create E now newId (spread_owner F caller) = Some tx"
  shows "mapTransaction tx = JObj
       [(''id'', JStr newId),
        (''userId'', JStr (c_id caller)),
        (''userName'', JStr (c_name caller)),
        (''date'', opt_str (x_date F)),
        (''type'', opt_str (x_type F)),
        (''category'', opt_str (x_category F)),
        (''amount'', opt_num (x_amount F)),
        (''paymentMethod'', opt_str (x_paymentMethod F)),
        (''bankAccountId'', opt_str (x_bankAccountId F)),
        (''bankName'', opt_str (x_bankName F)),
        (''description'', JStr (dflt [] (x_description F))),
        (''attachment'', opt_str (x_attachment F)),
        (''investmentType'', JStr (dflt ''SINGLE'' (x_investmentType F))),
        (''investors'', JArr (map JStr (dflt [] (x_investors F)))),
        (''createdAt'', JStr (dflt (toISOString E now) (x_createdAt F)))]"
proof -
  from assms(1) have req:
    "required_str (x_date F)" "required_str (x_type F)" "required_str (x_category F)"
    "x_amount F \<noteq> None" "required_str (x_paymentMethod F)"
    by (simp_all add: validate_tx_def spread_owner_def)
  from assms have "tx = \<lparr>t_id = newId,
                 t_userId = c_id caller,
                 t_userName = c_name caller,
                 t_date = dflt [] (x_date F),
                 t_type = dflt [] (x_type F),
                 t_category = dflt [] (x_category F),
                 t_amount = dflt 0 (x_amount F),
                 t_paymentMethod = dflt [] (x_paymentMethod F),
                 t_bankAccountId = x_bankAccountId F,
                 t_bankName = x_bankName F,
                 t_description = dflt [] (x_description F),
                 t_attachment = x_attachment F,
                 t_investmentType = dflt ''SINGLE'' (x_investmentType F),
                 t_investors = Some (dflt [] (x_investors F)),
                 t_createdAt = dflt (toISOString E now) (x_createdAt F)\<rparr>"
    by (simp add: Transaction_create_def spread_owner_def dflt_def)
  then show ?thesis
    by (simp add: mapTransaction_def req required_str_opt required_num_opt)
qed

text \<open>
  Claim C8. Round trip: when a caller creates a transaction with fields \<open>F\<close> that pass
  the schema's validation, the created record is returned, and a following
  \<^verbatim>\<open>GET /transactions\<close> of the caller lists that same record. Its \<^verbatim>\<open>id\<close> is the
  generated id, its \<^verbatim>\<open>userId\<close> and \<^verbatim>\<open>userName\<close> are the caller's, and every
  other field has the value that \<open>F\<close> gives it; a field that \<open>F\<close> leaves out is
  \<^verbatim>\<open>undefined\<close> or, where the schema declares a default (description, investmentType,
  investors, createdAt), that default.
\<close>

theorem create_then_list_round_trip:
  assumes "validate_tx (spread_owner F caller)"
  shows "\<exists>s' created listed.
           post_transactions E now newId F caller s = (s', Json 200 created) \<and>
           get_transactions caller s' = (s', Json 200 (JArr listed)) \<and>
           created \<in> set listed \<and>
           created = JObj
             [(''id'', JStr newId),
              (''userId'', JStr (c_id caller)),
              (''userName'', JStr (c_name caller)),
              (''date'', opt_str (x_date F)),
              (''type'', opt_str (x_type F)),
              (''category'', opt_str (x_category F)),
              (''amount'', opt_num (x_amount F)),
              (''paymentMethod'', opt_str (x_paymentMethod F)),
              (''bankAccountId'', opt_str (x_bankAccountId F)),
              (''bankName'', opt_str (x_bankName F)),
              (''description'', JStr (dflt [] (x_description F))),
              (''attachment'', opt_str (x_attachment F)),
              (''investmentType'', JStr (dflt ''SINGLE'' (x_investmentType F))),
              (''investors'', JArr (map JStr (dflt [] (x_investors F)))),
              (''createdAt'', JStr (dflt (toISOString E now) (x_createdAt F)))]"
proof -
  from assms obtain tx where
    tx: "Transaction_create E now newId (spread_owner F caller) = Some tx"
    by (simp add: Transaction_create_def)
  let ?s' = "s\<lparr>transactions := transactions s @ [tx]\<rparr>"
  let ?listed = "map mapTransaction
      (sort_desc t_date (findMany (\<lambda>d. t_userId d = c_id caller) (transactions ?s')))"
  from tx have owner: "t_userId tx = c_id caller"
    by (simp add: Transaction_create_owner)
  from tx have post:
    "post_transactions E now newId F caller s = (?s', Json 200 (mapTransaction tx))"
    by (simp add: post_transactions_def create_def)
  have get: "get_transactions caller ?s' = (?s', Json 200 (JArr ?listed))"
    by (simp add: get_transactions_def)
  from owner have "tx \<in> set (sort_desc t_date
      (findMany (\<lambda>d. t_userId d = c_id caller) (transactions ?s')))"
    by (simp add: sort_desc_def findMany_def)
  then have mem: "mapTransaction tx \<in> set ?listed" by simp
  from post get mem mapTransaction_created [OF assms tx] show ?thesis by blast
qed

theorem create_then_list_round_trip_witness:
  "validate_tx (spread_owner rent alice_claims) \<and>
   snd (post_transactions test_env 5000 ''t4'' rent alice_claims db0) =
     Json 200 (JObj
       [(''id'', JStr ''t4''), (''userId'', JStr ''64b7f0a1c2d3e4f5a6b7c801''), (''userName'', JStr ''Alice''),
        (''date'', JStr ''2024-04-01''), (''type'', JStr ''EXPENSE''),
        (''category'', JStr ''Rent''), (''amount'', JNum 50), (''paymentMethod'', JStr ''CARD''),
        (''bankAccountId'', JStr ''65d2bb000000000000000001''), (''bankName'', JUndefined), (''description'', JStr ''''),
        (''attachment'', JUndefined), (''investmentType'', JStr ''SINGLE''),
        (''investors'', JArr []), (''createdAt'', JStr ''1970-01-01T00:00:05.000Z'')]) \<and>
   snd (get_transactions alice_claims
          (fst (post_transactions test_env 5000 ''t4'' rent alice_claims db0))) =
     Json 200 (JArr
       [JObj
         [(''id'', JStr ''t4''), (''userId'', JStr ''64b7f0a1c2d3e4f5a6b7c801''), (''userName'', JStr ''Alice''),
          (''date'', JStr ''2024-04-01''), (''type'', JStr ''EXPENSE''),
          (''category'', JStr ''Rent''), (''amount'', JNum 50), (''paymentMethod'', JStr ''CARD''),
          (''bankAccountId'', JStr ''65d2bb000000000000000001''), (''bankName'', JUndefined), (''description'', JStr ''''),
          (''attachment'', JUndefined), (''investmentType'', JStr ''SINGLE''),
          (''investors'', JArr []), (''createdAt'', JStr ''1970-01-01T00:00:05.000Z'')],
        mapTransaction tx3, mapTransaction tx1])"
proof -
  have v: "validate_tx (spread_owner rent alice_claims)"
    by (simp add: validate_tx_def spread_owner_def rent_def no_fields_def alice_claims_def
          required_str_def enum_ok_def)
  from create_then_list_round_trip [OF v, of test_env 5000 "''t4''" db0] v show ?thesis
    by (simp add: post_transactions_def get_transactions_def spread_owner_def
        Transaction_create_def validate_tx_def required_str_def
        enum_ok_def dflt_def create_def mapTransaction_def opt_str_def sort_desc_def findMany_def
        rent_def no_fields_def alice_claims_def test_env_def db0_def tx1_def tx2_def tx3_def)
qed

section \<open>Ownership of a transaction after creation\<close>

lemma set_tx_keeps_owner: "x_userId body = None \<Longrightarrow> t_userId (set_tx body t) = t_userId t"
  by (simp add: set_tx_def dflt_def)

lemma bulk_category_keeps_owner:
  "map t_userId (transactions (fst (bulk_category E ids category caller s))) =
   map t_userId (transactions s)"
  by (simp add: bulk_category_def updateMany_def split: option.splits)

text \<open>
  Claim C2 says that the \<^verbatim>\<open>userId\<close> of a stored transaction never changes. The
  bulk-category route keeps it (\<open>bulk_category_keeps_owner\<close>) and the create route fixes
  it to the caller, but \<^verbatim>\<open>PUT /transactions/:id\<close> hands the whole body to
  \<^verbatim>\<open>$set\<close>: when Alice updates her own transaction \<open>tx1\<close> with a body that holds
  only Bob's id as \<^verbatim>\<open>userId\<close>, the response is \<^verbatim>\<open>{success: true}\<close>, the stored
  transaction now has Bob's id as \<^verbatim>\<open>userId\<close>, Bob's list contains it and Alice's list
  no longer does.
\<close>

theorem put_transaction_transfers_owner:
  "t_id tx1 = ''65c1aa000000000000000001'' \<and> castObjectId test_env (t_id tx1) = Some (t_id tx1) \<and>
   t_userId tx1 = c_id alice_claims \<and> c_id alice_claims = ''64b7f0a1c2d3e4f5a6b7c801'' \<and>
   c_id bob_claims = ''64b7f0a1c2d3e4f5a6b7c802'' \<and> x_userId takeover = Some (c_id bob_claims) \<and>
   transactions (fst (put_transaction test_env (t_id tx1) takeover alice_claims db0)) =
     [tx1\<lparr>t_userId := c_id bob_claims\<rparr>, tx2, tx3] \<and>
   snd (put_transaction test_env (t_id tx1) takeover alice_claims db0) =
     Json 200 (JObj [(''success'', JBool True)]) \<and>
   snd (get_transactions bob_claims
          (fst (put_transaction test_env (t_id tx1) takeover alice_claims db0))) =
     Json 200 (JArr [mapTransaction tx2, mapTransaction (tx1\<lparr>t_userId := c_id bob_claims\<rparr>)]) \<and>
   snd (get_transactions alice_claims
          (fst (put_transaction test_env (t_id tx1) takeover alice_claims db0))) =
     Json 200 (JArr [mapTransaction tx3])"
  by (simp add: put_transaction_def get_transactions_def set_tx_def takeover_def no_fields_def
        dflt_def keep_def sort_desc_def findMany_def json_success_def test_env_fields
        hex24_stored db0_def tx1_def tx2_def tx3_def alice_claims_def bob_claims_def)

section \<open>Token verification\<close>











end
